theory Spec2Isabelle
  imports Main "HOL-Library.AList"
begin

section \<open>Values exchanged with the API\<close>

text \<open>
  A decoded JSON document, which is also the shape of every Python value that flows
  through \<^verbatim>\<open>url_params\<close>: \<open>JNull\<close> is Python's \<^verbatim>\<open>None\<close>, an object is a
  \<^verbatim>\<open>dict\<close> with string keys, kept as an association list that is read with
  \<open>map_of\<close>. Numbers are the integers; fractional numbers are left out.
\<close>

datatype json =
    JNull
  | JBool bool
  | JNum int
  | JStr string
  | JArr "json list"
  | JObj "(string \<times> json) list"

text \<open>
  The exceptions of \<^verbatim>\<open>youtubeaio.types\<close> that \<^verbatim>\<open>youtube.py\<close> raises, the built-in
  exceptions its expressions can raise, \<^verbatim>\<open>asyncio.TimeoutError\<close>, and
  \<^verbatim>\<open>aiohttp.ClientError\<close>. \<open>YouTubeAPIError None\<close> is the exception raised
  without arguments. \<open>OtherError\<close> stands for whatever else a collaborator raises.
\<close>

datatype error =
    YouTubeBackendError string
  | YouTubeAPIError "string option"
  | YouTubeResourceNotFoundError
  | UnauthorizedError
  | ForbiddenError json
  | MissingScopeError string
  | ValueError string
  | TimeoutError
  | ClientError
  | AttributeError
  | KeyError
  | IndexError
  | TypeError
  | OtherError string

subsection \<open>The Python expressions used on decoded values\<close>

text \<open>\<^verbatim>\<open>v.get(k, d)\<close>: only a \<^verbatim>\<open>dict\<close> has the method.\<close>

fun py_get :: "json \<Rightarrow> string \<Rightarrow> json \<Rightarrow> error + json" where
  "py_get (JObj kvs) k d = Inr (case map_of kvs k of None \<Rightarrow> d | Some v \<Rightarrow> v)"
| "py_get _ k d = Inl AttributeError"

text \<open>\<^verbatim>\<open>v[k]\<close> with a string \<open>k\<close>.\<close>

fun py_getitem :: "json \<Rightarrow> string \<Rightarrow> error + json" where
  "py_getitem (JObj kvs) k = (case map_of kvs k of None \<Rightarrow> Inl KeyError | Some v \<Rightarrow> Inr v)"
| "py_getitem _ k = Inl TypeError"

text \<open>\<^verbatim>\<open>v[0]\<close>. The keys of a decoded object are strings, so \<open>0\<close> is never one.\<close>

fun py_getitem0 :: "json \<Rightarrow> error + json" where
  "py_getitem0 (JArr []) = Inl IndexError"
| "py_getitem0 (JArr (x # xs)) = Inr x"
| "py_getitem0 (JStr []) = Inl IndexError"
| "py_getitem0 (JStr (c # cs)) = Inr (JStr [c])"
| "py_getitem0 (JObj kvs) = Inl KeyError"
| "py_getitem0 _ = Inl TypeError"

text \<open>\<^verbatim>\<open>for entry in v\<close>: a list gives its elements, a dict its keys, a string its characters.\<close>

fun py_iter :: "json \<Rightarrow> error + json list" where
  "py_iter (JArr xs) = Inr xs"
| "py_iter (JObj kvs) = Inr (map (\<lambda>kv. JStr (fst kv)) kvs)"
| "py_iter (JStr s) = Inr (map (\<lambda>c. JStr [c]) s)"
| "py_iter _ = Inl TypeError"

text \<open>\<^verbatim>\<open>sep.join(xs)\<close>.\<close>

fun py_join :: "string \<Rightarrow> string list \<Rightarrow> string" where
  "py_join sep [] = []"
| "py_join sep [x] = x"
| "py_join sep (x # y # ys) = x @ sep @ py_join sep (y # ys)"

text \<open>\<^verbatim>\<open>s.lower()\<close> on ASCII letters.\<close>

definition lower_char :: "char \<Rightarrow> char" where
  "lower_char c =
     (let n = (of_char c :: nat) in if 65 \<le> n \<and> n \<le> 90 then char_of (n + 32) else c)"

definition py_lower :: "string \<Rightarrow> string" where
  "py_lower s = map lower_char s"

text \<open>The f-string field \<^verbatim>\<open>{self._user_auth_token}\<close> of a \<^verbatim>\<open>str | None\<close>.\<close>

fun format_token :: "string option \<Rightarrow> string" where
  "format_token None = ''None''"
| "format_token (Some t) = t"

section \<open>The network and the other collaborators\<close>

text \<open>
  A request as \<^verbatim>\<open>session.get(url, headers=headers, json=data)\<close> sends it, with the
  session that sends it.
\<close>

record request =
  req_session :: nat
  req_url :: string
  req_headers :: "(string \<times> string) list"
  req_json :: "(string \<times> json) list option"

text \<open>
  What the code reads of a \<^verbatim>\<open>ClientResponse\<close>: its status, its content type and the
  outcome of \<^verbatim>\<open>await response.json()\<close>, which may raise.
\<close>

record response =
  status :: int
  content_type :: string
  json_body :: "error + json"

text \<open>
  What the network does with one request: how long the call takes, in the time units of
  \<^verbatim>\<open>session_timeout\<close>, and the response or the exception it ends with.
\<close>

record fetch =
  elapsed :: int
  reply :: "error + response"

text \<open>
  The collaborators that are not part of \<^verbatim>\<open>youtube.py\<close>:
  \<^item> \<open>build_url\<close> is \<^verbatim>\<open>youtubeaio.helper.build_url(url, params, remove_none, split_lists)\<close>;
  \<^item> \<open>py_repr\<close> is Python's \<^verbatim>\<open>str()\<close> on a value that is not a string;
  \<^item> \<open>session_get\<close> is the network: the outcome of the request with a given number
    (counted from 0 within one run of the generator).
\<close>

record externals =
  build_url :: "string \<Rightarrow> (string \<times> json) list \<Rightarrow> bool \<Rightarrow> bool \<Rightarrow> string"
  py_repr :: "json \<Rightarrow> string"
  session_get :: "nat \<Rightarrow> request \<Rightarrow> fetch"

text \<open>\<^verbatim>\<open>f"{msg!s}"\<close>: a string is itself.\<close>

fun py_str :: "externals \<Rightarrow> json \<Rightarrow> string" where
  "py_str ext (JStr s) = s"
| "py_str ext v = py_repr ext v"

section \<open>The client object\<close>

datatype handler = ApiGetRequest

text \<open>
  \<^verbatim>\<open>_user_auth_scopes\<close> starts as the class attribute
  \<^verbatim>\<open>field(default_factory=list)\<close>, a \<^verbatim>\<open>dataclasses.Field\<close> object and not a list,
  since the class is not a dataclass.
\<close>

datatype 's scopes_attr = FieldObject | ScopeList "'s list"

text \<open>
  The attributes of a \<^verbatim>\<open>YouTube\<close> object, without the leading underscores. A session is
  a handle into the store of \<^verbatim>\<open>ClientSession\<close> objects; \<open>'s\<close> is
  \<^verbatim>\<open>youtubeaio.types.AuthScope\<close>.
\<close>

record 's youtube =
  session :: "nat option"
  session_timeout :: int
  app_id :: "string option"
  app_secret :: "string option"
  auto_refresh_auth :: bool
  r_lookup :: "(string \<times> handler) list"
  close_session :: bool
  user_auth_token :: "string option"
  user_auth_refresh_token :: "string option"
  user_auth_scopes :: "'s scopes_attr"
  has_user_auth :: bool

text \<open>
  The store of \<^verbatim>\<open>ClientSession\<close> objects: entry \<open>h\<close> tells whether session \<open>h\<close> has
  been closed. \<^verbatim>\<open>ClientSession()\<close> appends an open one, \<^verbatim>\<open>session.close()\<close> sets the
  entry (closing a closed session changes nothing).
\<close>

type_synonym sessions = "bool list"

definition base_url :: string where
  "base_url = ''https://youtube.googleapis.com/youtube/v3/''"

text \<open>
  \<^verbatim>\<open>__init__\<close>; an argument that the caller leaves out is \<open>None\<close>, and
  \<^verbatim>\<open>session_timeout\<close> then takes its default.
\<close>

definition YouTube_init ::
  "string option \<Rightarrow> string option \<Rightarrow> nat option \<Rightarrow> int option \<Rightarrow> bool option \<Rightarrow> 's youtube" where
  "YouTube_init app_id' app_secret' session' session_timeout' auto_refresh_auth' =
     \<lparr> session = session',
       session_timeout = (case session_timeout' of None \<Rightarrow> 10 | Some t \<Rightarrow> t),
       app_id = app_id',
       app_secret = app_secret',
       auto_refresh_auth =
         (case auto_refresh_auth' of
            None \<Rightarrow> app_id' \<noteq> None \<and> app_secret' \<noteq> None
          | Some b \<Rightarrow> b),
       r_lookup = [(''get'', ApiGetRequest)],
       close_session = False,
       user_auth_token = None,
       user_auth_refresh_token = None,
       user_auth_scopes = FieldObject,
       has_user_auth = False \<rparr>"

section \<open>The error classifier\<close>

text \<open>\<^verbatim>\<open>response.raise_for_status()\<close> of aiohttp raises for a status of 400 and above.\<close>

definition raise_for_status :: "response \<Rightarrow> error + unit" where
  "raise_for_status rsp = (if 400 \<le> status rsp then Inl ClientError else Inr ())"

text \<open>\<^verbatim>\<open>response_json["error"]["errors"][0]["message"]\<close>.\<close>

definition forbidden_message :: "json \<Rightarrow> error + json" where
  "forbidden_message response_json =
     (case py_getitem response_json ''error'' of
        Inl e \<Rightarrow> Inl e
      | Inr a \<Rightarrow>
          (case py_getitem a ''errors'' of
             Inl e \<Rightarrow> Inl e
           | Inr b \<Rightarrow>
               (case py_getitem0 b of
                  Inl e \<Rightarrow> Inl e
                | Inr c \<Rightarrow> py_getitem c ''message'')))"

definition check_request_return :: "externals \<Rightarrow> response \<Rightarrow> error + response" where
  "check_request_return ext rsp =
     (if status rsp = 500 then Inl (YouTubeBackendError ''Internal Server Error'')
      else if status rsp = 400 then
        (case json_body rsp of
           Inl e \<Rightarrow> Inl e
         | Inr j \<Rightarrow>
             (case py_get j ''message'' JNull of
                Inl e \<Rightarrow> Inl e
              | Inr msg \<Rightarrow>
                  Inl (YouTubeAPIError
                    (Some (''Bad Request'' @ (if msg = JNull then [] else '' - '' @ py_str ext msg))))))
      else if status rsp = 404 then Inl YouTubeResourceNotFoundError
      else if status rsp = 401 then Inl UnauthorizedError
      else if status rsp = 403 then
        (case json_body rsp of
           Inl e \<Rightarrow> Inl e
         | Inr response_json \<Rightarrow>
             (case forbidden_message response_json of
                Inl e \<Rightarrow> Inl e
              | Inr error_message \<Rightarrow> Inl (ForbiddenError error_message)))
      else if 400 \<le> status rsp \<and> status rsp < 500 then
        (case raise_for_status rsp of
           Inl ClientError \<Rightarrow> Inl (YouTubeAPIError None)
         | Inl e \<Rightarrow> Inl e
         | Inr u \<Rightarrow> Inr rsp)
      else Inr rsp)"

section \<open>The authenticated request executor\<close>

text \<open>The request that \<^verbatim>\<open>_api_get_request(session, url, data)\<close> sends.\<close>

definition get_request ::
  "'s youtube \<Rightarrow> nat \<Rightarrow> string \<Rightarrow> (string \<times> json) list option \<Rightarrow> request" where
  "get_request yt sess url data =
     \<lparr> req_session = sess,
       req_url = url,
       req_headers = [(''Authorization'', ''Bearer '' @ format_token (user_auth_token yt))],
       req_json = data \<rparr>"

text \<open>
  \<^verbatim>\<open>_api_get_request\<close>, as request number \<open>n\<close>: the request sent, the time the call
  takes, and what it returns or raises. The debug log line is left out.
\<close>

definition api_get_request ::
  "externals \<Rightarrow> 's youtube \<Rightarrow> nat \<Rightarrow> nat \<Rightarrow> string \<Rightarrow> (string \<times> json) list option
     \<Rightarrow> request \<times> int \<times> (error + response)" where
  "api_get_request ext yt n sess url data =
     (let rq = get_request yt sess url data;
          f = session_get ext n rq
      in (rq, elapsed f,
          (case reply f of
             Inl e \<Rightarrow> Inl e
           | Inr rsp \<Rightarrow> check_request_return ext rsp)))"

section \<open>The pagination engine\<close>

text \<open>
  How far the consumer got with the generator: it stopped by itself, it raised, or it is
  still suspended in a request when the observation ends.
\<close>

datatype ending = Stopped | Raised error | Pending

text \<open>
  One observation of \<^verbatim>\<open>_build_generator\<close>: the records yielded in order, the requests
  sent in order, and how it ended.
\<close>

record 'r run =
  yielded :: "'r list"
  requests :: "request list"
  ending :: ending

definition emit :: "'r list \<Rightarrow> request \<Rightarrow> 'r run \<Rightarrow> 'r run" where
  "emit rs rq r = r\<lparr>yielded := rs @ yielded r, requests := rq # requests r\<rparr>"

text \<open>\<^verbatim>\<open>d.get(k)\<close> on a dict.\<close>

definition dict_get :: "(string \<times> json) list \<Rightarrow> string \<Rightarrow> json" where
  "dict_get d k = (case map_of d k of None \<Rightarrow> JNull | Some v \<Rightarrow> v)"

text \<open>\<^verbatim>\<open>self._r_lookup.get(req.lower(), self._api_get_request)\<close>.\<close>

definition lookup_method :: "'s youtube \<Rightarrow> string \<Rightarrow> handler" where
  "lookup_method yt req =
     (case map_of (r_lookup yt) (py_lower req) of None \<Rightarrow> ApiGetRequest | Some h \<Rightarrow> h)"

definition call_method ::
  "handler \<Rightarrow> externals \<Rightarrow> 's youtube \<Rightarrow> nat \<Rightarrow> nat \<Rightarrow> string \<Rightarrow> (string \<times> json) list option
     \<Rightarrow> request \<times> int \<times> (error + response)" where
  "call_method h ext yt n sess url data =
     (case h of ApiGetRequest \<Rightarrow> api_get_request ext yt n sess url data)"

text \<open>
  \<^verbatim>\<open>async with async_timeout.timeout(limit)\<close> around a call that takes \<open>took\<close>: the
  call is cancelled with \<^verbatim>\<open>asyncio.TimeoutError\<close> when it takes longer than the limit.
\<close>

definition with_timeout :: "int \<Rightarrow> int \<Rightarrow> error + 'a \<Rightarrow> error + 'a" where
  "with_timeout limit took res = (if limit < took then Inl TimeoutError else res)"

text \<open>
  \<^verbatim>\<open>for entry in ...: yield return_type(**entry)\<close>: the records yielded, and the
  exception that ends the loop early, if any. Only a mapping can follow \<^verbatim>\<open>**\<close>.
\<close>

fun yield_entries ::
  "((string \<times> json) list \<Rightarrow> error + 'r) \<Rightarrow> json list \<Rightarrow> 'r list \<times> error option" where
  "yield_entries return_type [] = ([], None)"
| "yield_entries return_type (JObj kvs # es) =
     (case return_type kvs of
        Inl e \<Rightarrow> ([], Some e)
      | Inr r \<Rightarrow> (case yield_entries return_type es of (rs, x) \<Rightarrow> (r # rs, x)))"
| "yield_entries return_type (_ # es) = ([], Some TypeError)"

text \<open>
  One turn of the \<^verbatim>\<open>while\<close> loop after \<^verbatim>\<open>url_params["pageToken"] = _after\<close>, as
  request number \<open>n\<close>: the request sent, the records yielded, and the exception raised or
  the new value of \<^verbatim>\<open>_after\<close>.
\<close>

definition fetch_page ::
  "externals \<Rightarrow> 's youtube \<Rightarrow> handler \<Rightarrow> nat \<Rightarrow> string \<Rightarrow> ((string \<times> json) list \<Rightarrow> error + 'r)
     \<Rightarrow> (string \<times> json) list option \<Rightarrow> bool \<Rightarrow> (string \<times> json) list \<Rightarrow> nat
     \<Rightarrow> request \<times> 'r list \<times> (error + json)" where
  "fetch_page ext yt method sess url return_type body_data split_lists url_params n =
     (case call_method method ext yt n sess
             (build_url ext (base_url @ url) url_params True split_lists) body_data of
        (rq, took, res) \<Rightarrow>
          (case with_timeout (session_timeout yt) took res of
             Inl e \<Rightarrow> (rq, [], Inl e)
           | Inr rsp \<Rightarrow>
               if content_type rsp \<noteq> ''application/json''
               then (rq, [], Inl (YouTubeAPIError (Some ''Unexpected response type'')))
               else
                 (case json_body rsp of
                    Inl e \<Rightarrow> (rq, [], Inl e)
                  | Inr data \<Rightarrow>
                      (case py_get data ''items'' (JArr []) of
                         Inl e \<Rightarrow> (rq, [], Inl e)
                       | Inr items \<Rightarrow>
                           (case py_iter items of
                              Inl e \<Rightarrow> (rq, [], Inl e)
                            | Inr entries \<Rightarrow>
                                (case yield_entries return_type entries of
                                   (rs, Some e) \<Rightarrow> (rq, rs, Inl e)
                                 | (rs, None) \<Rightarrow> (rq, rs, py_get data ''nextPageToken'' JNull)))))))"

text \<open>
  The \<^verbatim>\<open>while _first or _after is not None\<close> loop. The loop has no bound of its own, so
  the first argument after the call's parameters bounds the number of page fetches
  that are observed; \<open>Pending\<close> is the observation that ends before the loop does.
\<close>

fun generator_loop ::
  "externals \<Rightarrow> 's youtube \<Rightarrow> handler \<Rightarrow> nat \<Rightarrow> string \<Rightarrow> ((string \<times> json) list \<Rightarrow> error + 'r)
     \<Rightarrow> (string \<times> json) list option \<Rightarrow> bool
     \<Rightarrow> nat \<Rightarrow> bool \<Rightarrow> json \<Rightarrow> (string \<times> json) list \<Rightarrow> nat \<Rightarrow> 'r run" where
  "generator_loop ext yt method sess url return_type body_data split_lists 0 first after url_params n =
     (if first \<or> after \<noteq> JNull
      then \<lparr>yielded = [], requests = [], ending = Pending\<rparr>
      else \<lparr>yielded = [], requests = [], ending = Stopped\<rparr>)"
| "generator_loop ext yt method sess url return_type body_data split_lists (Suc fuel) first after url_params n =
     (if first \<or> after \<noteq> JNull
      then
        (case fetch_page ext yt method sess url return_type body_data split_lists
                (AList.update ''pageToken'' after url_params) n of
           (rq, rs, Inl e) \<Rightarrow> \<lparr>yielded = rs, requests = [rq], ending = Raised e\<rparr>
         | (rq, rs, Inr after') \<Rightarrow>
             emit rs rq
               (generator_loop ext yt method sess url return_type body_data split_lists fuel False after'
                  (AList.update ''pageToken'' after url_params) (Suc n)))
      else \<lparr>yielded = [], requests = [], ending = Stopped\<rparr>)"

text \<open>\<^verbatim>\<open>except asyncio.TimeoutError\<close> around the loop.\<close>

fun catch_timeout :: "ending \<Rightarrow> ending" where
  "catch_timeout (Raised TimeoutError) = Raised (YouTubeBackendError ''Timeout occurred'')"
| "catch_timeout x = x"

text \<open>
  \<^verbatim>\<open>if not self.session: self.session = ClientSession(); self._close_session = True\<close>:
  the session to use, the client and the store afterwards.
\<close>

definition ensure_session :: "'s youtube \<Rightarrow> sessions \<Rightarrow> nat \<times> 's youtube \<times> sessions" where
  "ensure_session yt ss =
     (case session yt of
        None \<Rightarrow> (length ss, yt\<lparr>session := Some (length ss), close_session := True\<rparr>, ss @ [False])
      | Some h \<Rightarrow> (h, yt, ss))"

text \<open>
  \<^verbatim>\<open>_build_generator(req, url, url_params, return_type, body_data, split_lists)\<close>,
  consumed for at most \<open>fuel\<close> page fetches: the client and the session store afterwards,
  and the run.
\<close>

definition build_generator ::
  "externals \<Rightarrow> 's youtube \<Rightarrow> sessions \<Rightarrow> string \<Rightarrow> string \<Rightarrow> (string \<times> json) list
     \<Rightarrow> ((string \<times> json) list \<Rightarrow> error + 'r) \<Rightarrow> (string \<times> json) list option \<Rightarrow> bool \<Rightarrow> nat
     \<Rightarrow> 's youtube \<times> sessions \<times> 'r run" where
  "build_generator ext yt ss req url url_params return_type body_data split_lists fuel =
     (let method = lookup_method yt req;
          after = dict_get url_params ''nextPageToken''
      in case ensure_session yt ss of
           (sess, yt', ss') \<Rightarrow>
             (let r = generator_loop ext yt' method sess url return_type body_data split_lists
                        fuel True after url_params 0
              in (yt', ss', r\<lparr>ending := catch_timeout (ending r)\<rparr>)))"

section \<open>Credentials\<close>

text \<open>
  \<^verbatim>\<open>set_user_authentication\<close>: the exception raised, if any, and the client afterwards.
\<close>

definition set_user_authentication ::
  "'s youtube \<Rightarrow> string \<Rightarrow> 's list \<Rightarrow> string option \<Rightarrow> error option \<times> 's youtube" where
  "set_user_authentication yt token scopes refresh_token =
     (if refresh_token = None \<and> auto_refresh_auth yt
      then (Some (ValueError ''refresh_token has to be provided when auto_refresh_auth is True''), yt)
      else if scopes = []
      then (Some (MissingScopeError ''scope was not provided''), yt)
      else (None, yt\<lparr> user_auth_token := Some token,
                      user_auth_refresh_token := refresh_token,
                      user_auth_scopes := ScopeList scopes,
                      has_user_auth := True \<rparr>))"

definition get_user_auth_token :: "'s youtube \<Rightarrow> string option" where
  "get_user_auth_token yt = user_auth_token yt"

section \<open>Resource accessors\<close>

text \<open>
  \<^verbatim>\<open>get_videos(video_ids)\<close>, with the record constructor \<^verbatim>\<open>YouTubeVideo\<close> of
  \<^verbatim>\<open>youtubeaio.models\<close> as a parameter.
\<close>

definition get_videos ::
  "externals \<Rightarrow> 's youtube \<Rightarrow> sessions \<Rightarrow> ((string \<times> json) list \<Rightarrow> error + 'r) \<Rightarrow> string list \<Rightarrow> nat
     \<Rightarrow> 's youtube \<times> sessions \<times> 'r run" where
  "get_videos ext yt ss YouTubeVideo video_ids fuel =
     (if video_ids = []
      then (yt, ss, \<lparr>yielded = [], requests = [],
                     ending = Raised (ValueError ''at least one video id has to be set'')\<rparr>)
      else build_generator ext yt ss ''GET'' ''videos''
             [(''part'', JStr ''snippet''), (''id'', JStr (py_join '','' video_ids))]
             YouTubeVideo None False fuel)"

text \<open>\<^verbatim>\<open>_get_channels(param)\<close>.\<close>

definition inner_get_channels ::
  "externals \<Rightarrow> 's youtube \<Rightarrow> sessions \<Rightarrow> ((string \<times> json) list \<Rightarrow> error + 'r)
     \<Rightarrow> (string \<times> json) list \<Rightarrow> nat \<Rightarrow> 's youtube \<times> sessions \<times> 'r run" where
  "inner_get_channels ext yt ss YouTubeChannel param fuel =
     build_generator ext yt ss ''GET'' ''channels'' param YouTubeChannel None False fuel"

definition get_channels ::
  "externals \<Rightarrow> 's youtube \<Rightarrow> sessions \<Rightarrow> ((string \<times> json) list \<Rightarrow> error + 'r) \<Rightarrow> string list \<Rightarrow> nat
     \<Rightarrow> 's youtube \<times> sessions \<times> 'r run" where
  "get_channels ext yt ss YouTubeChannel channel_ids fuel =
     inner_get_channels ext yt ss YouTubeChannel
       [(''part'', JStr ''snippet,contentDetails,statistics''),
        (''id'', JStr (py_join '','' channel_ids))]
       fuel"

section \<open>Closing\<close>

text \<open>\<^verbatim>\<open>close()\<close>: the session store afterwards; the client itself is not changed.\<close>

definition close :: "'s youtube \<Rightarrow> sessions \<Rightarrow> sessions" where
  "close yt ss =
     (case session yt of
        None \<Rightarrow> ss
      | Some h \<Rightarrow> if close_session yt then ss[h := True] else ss)"

text \<open>
  A program that uses one client: it consumes generators, sets credentials and closes,
  in any order.
\<close>

datatype ('s, 'r) action =
    Generate externals string string "(string \<times> json) list" "(string \<times> json) list \<Rightarrow> error + 'r"
      "(string \<times> json) list option" bool nat
  | SetUserAuthentication string "'s list" "string option"
  | Close

fun perform :: "('s, 'r) action \<Rightarrow> 's youtube \<times> sessions \<Rightarrow> 's youtube \<times> sessions" where
  "perform (Generate ext req url url_params return_type body_data split_lists fuel) (yt, ss) =
     (case build_generator ext yt ss req url url_params return_type body_data split_lists fuel of
        (yt', ss', r) \<Rightarrow> (yt', ss'))"
| "perform (SetUserAuthentication token scopes refresh_token) (yt, ss) =
     (snd (set_user_authentication yt token scopes refresh_token), ss)"
| "perform Close (yt, ss) = (yt, close yt ss)"

definition perform_all ::
  "('s, 'r) action list \<Rightarrow> 's youtube \<times> sessions \<Rightarrow> 's youtube \<times> sessions" where
  "perform_all acts st = fold perform acts st"

section \<open>Pages as the API serves them\<close>

text \<open>
  The request of the loop for the cursor \<open>c\<close>: the URL built from the parameters with
  \<^verbatim>\<open>pageToken\<close> set to \<open>c\<close>, sent by \<^verbatim>\<open>_api_get_request\<close>.
\<close>

definition page_request ::
  "externals \<Rightarrow> 's youtube \<Rightarrow> nat \<Rightarrow> string \<Rightarrow> (string \<times> json) list option \<Rightarrow> bool
     \<Rightarrow> (string \<times> json) list \<Rightarrow> json \<Rightarrow> request" where
  "page_request ext yt sess url body_data split_lists url_params c =
     get_request yt sess
       (build_url ext (base_url @ url) (AList.update ''pageToken'' c url_params) True split_lists)
       body_data"

text \<open>
  The response arrives within the timeout, its status is none of those the classifier
  raises for, and its content type is JSON.
\<close>

definition arrives :: "'s youtube \<Rightarrow> fetch \<Rightarrow> response \<Rightarrow> bool" where
  "arrives yt f rsp =
     (elapsed f \<le> session_timeout yt \<and> reply f = Inr rsp \<and>
      status rsp \<noteq> 500 \<and> \<not> (400 \<le> status rsp \<and> status rsp < 500))"

text \<open>
  A fetch that delivers a page: the response arrives, it declares JSON, and it decodes to
  the given object.
\<close>

definition delivers :: "'s youtube \<Rightarrow> fetch \<Rightarrow> (string \<times> json) list \<Rightarrow> bool" where
  "delivers yt f page =
     (case reply f of
        Inl e \<Rightarrow> False
      | Inr rsp \<Rightarrow>
          arrives yt f rsp \<and> content_type rsp = ''application/json'' \<and>
          json_body rsp = Inr (JObj page))"

text \<open>
  The records of a page: none when the page has no \<^verbatim>\<open>items\<close> field, otherwise the
  field is a list of objects and the records are what the constructor makes of them, one
  for each and in their order.
\<close>

definition constructs ::
  "((string \<times> json) list \<Rightarrow> error + 'r) \<Rightarrow> (string \<times> json) list \<Rightarrow> 'r list \<Rightarrow> bool" where
  "constructs return_type page rs =
     (case map_of page ''items'' of
        None \<Rightarrow> rs = []
      | Some (JArr es) \<Rightarrow>
          list_all2 (\<lambda>e r. case e of JObj kvs \<Rightarrow> return_type kvs = Inr r | _ \<Rightarrow> False) es rs
      | Some _ \<Rightarrow> False)"

text \<open>
  The cursors of a run that starts with the cursor \<open>c\<close> and receives the given pages:
  \<open>c\<close>, then the \<^verbatim>\<open>nextPageToken\<close> of each page.
\<close>

definition cursors :: "json \<Rightarrow> (string \<times> json) list list \<Rightarrow> json list" where
  "cursors c pages = c # map (\<lambda>page. dict_get page ''nextPageToken'') pages"

text \<open>
  The API serves the pages in order: request number \<open>n + i\<close>, sent for the cursor that
  page \<open>i - 1\<close> carried, delivers page \<open>i\<close>.
\<close>

definition serves ::
  "externals \<Rightarrow> 's youtube \<Rightarrow> nat \<Rightarrow> string \<Rightarrow> (string \<times> json) list option \<Rightarrow> bool
     \<Rightarrow> (string \<times> json) list \<Rightarrow> nat \<Rightarrow> json \<Rightarrow> (string \<times> json) list list \<Rightarrow> bool" where
  "serves ext yt sess url body_data split_lists url_params n c pages =
     (\<forall>i<length pages.
        delivers yt
          (session_get ext (n + i)
             (page_request ext yt sess url body_data split_lists url_params (cursors c pages ! i)))
          (pages ! i))"

definition prepend :: "'r list \<Rightarrow> request list \<Rightarrow> 'r run \<Rightarrow> 'r run" where
  "prepend rs rqs r = r\<lparr>yielded := rs @ yielded r, requests := rqs @ requests r\<rparr>"

section \<open>Sample collaborators\<close>

text \<open>
  Stand-ins for the collaborators, for the concrete runs below: a URL builder that
  appends the string-valued parameters, a rendering of values, a network that answers
  request \<open>n\<close> with the \<open>n\<close>-th entry of a script, and a record constructor that keeps
  the \<^verbatim>\<open>id\<close> field.
\<close>

fun sample_query :: "(string \<times> json) list \<Rightarrow> string" where
  "sample_query [] = []"
| "sample_query ((k, JStr v) # ps) = ''&'' @ k @ ''='' @ v @ sample_query ps"
| "sample_query (_ # ps) = sample_query ps"

definition sample_build_url :: "string \<Rightarrow> (string \<times> json) list \<Rightarrow> bool \<Rightarrow> bool \<Rightarrow> string" where
  "sample_build_url url ps remove_none split_lists = url @ ''?'' @ sample_query ps"

fun sample_repr :: "json \<Rightarrow> string" where
  "sample_repr JNull = ''None''"
| "sample_repr (JBool b) = (if b then ''True'' else ''False'')"
| "sample_repr _ = ''...''"

definition scripted :: "fetch list \<Rightarrow> nat \<Rightarrow> request \<Rightarrow> fetch" where
  "scripted fs n rq = (if n < length fs then fs ! n else \<lparr>elapsed = 0, reply = Inl ClientError\<rparr>)"

definition sample_externals :: "fetch list \<Rightarrow> externals" where
  "sample_externals fs =
     \<lparr>build_url = sample_build_url, py_repr = sample_repr, session_get = scripted fs\<rparr>"

definition sample_record :: "(string \<times> json) list \<Rightarrow> error + string" where
  "sample_record kvs = (case map_of kvs ''id'' of Some (JStr s) \<Rightarrow> Inr s | _ \<Rightarrow> Inl TypeError)"

definition answer :: "int \<Rightarrow> int \<Rightarrow> string \<Rightarrow> json \<Rightarrow> fetch" where
  "answer took code ctype body =
     \<lparr>elapsed = took, reply = Inr \<lparr>status = code, content_type = ctype, json_body = Inr body\<rparr>\<rparr>"

definition sample_client :: "unit youtube" where
  "sample_client = YouTube_init None None None None None"

text \<open>
  Two pages of a list, the second one the last, the parameters of a call, and the body
  of a refused request.
\<close>

definition page_one :: "(string \<times> json) list" where
  "page_one =
     [(''items'', JArr [JObj [(''id'', JStr ''a'')], JObj [(''id'', JStr ''b'')]]),
      (''nextPageToken'', JStr ''t2'')]"

definition page_two :: "(string \<times> json) list" where
  "page_two = [(''items'', JArr [JObj [(''id'', JStr ''c'')]])]"

definition sample_params :: "(string \<times> json) list" where
  "sample_params = [(''part'', JStr ''snippet'')]"

definition resumed_params :: "(string \<times> json) list" where
  "resumed_params = [(''part'', JStr ''snippet''), (''nextPageToken'', JStr ''t9'')]"

definition forbidden_body :: "(string \<times> json) list" where
  "forbidden_body =
     [(''error'', JObj [(''errors'', JArr [JObj [(''message'', JStr ''insufficient permission'')]])])]"

section \<open>Facts about the classifier and one page fetch\<close>

lemma lookup_method_get: "lookup_method yt req = ApiGetRequest"
  by (cases "lookup_method yt req") simp

lemma check_passes:
  "status rsp \<noteq> 500 \<Longrightarrow> \<not> (400 \<le> status rsp \<and> status rsp < 500) \<Longrightarrow>
   check_request_return ext rsp = Inr rsp"
  by (auto simp: check_request_return_def)

lemma check_forbidden:
  "status rsp = 403 \<Longrightarrow> json_body rsp = Inr (JObj body) \<Longrightarrow>
   map_of body ''error'' = Some (JObj err) \<Longrightarrow>
   map_of err ''errors'' = Some (JArr (JObj entry # entries)) \<Longrightarrow>
   map_of entry ''message'' = Some m \<Longrightarrow>
   check_request_return ext rsp = Inl (ForbiddenError m)"
  by (simp add: check_request_return_def forbidden_message_def)

lemma loop_forgets_page_token:
  "generator_loop ext yt m sess url rt body split fuel first c (AList.update ''pageToken'' v ps) n
   = generator_loop ext yt m sess url rt body split fuel first c ps n"
  by (cases fuel) simp_all

lemma yield_entries_constructs:
  "list_all2 (\<lambda>e r. case e of JObj kvs \<Rightarrow> rt kvs = Inr r | _ \<Rightarrow> False) es rs \<Longrightarrow>
   yield_entries rt es = (rs, None)"
proof (induction es rs rule: list_all2_induct)
  case Nil
  then show ?case by simp
next
  case (Cons e es r rs)
  then show ?case by (cases e) simp_all
qed

lemma page_entries_constructs:
  assumes "constructs rt page rs"
  shows "\<exists>items entries. py_get (JObj page) ''items'' (JArr []) = Inr items \<and>
           py_iter items = Inr entries \<and> yield_entries rt entries = (rs, None)"
proof (cases "map_of page ''items''")
  case None
  with assms show ?thesis by (simp add: constructs_def)
next
  case (Some v)
  with assms obtain es where v: "v = JArr es"
    by (cases v) (simp_all add: constructs_def)
  with assms Some have "yield_entries rt es = (rs, None)"
    by (simp add: constructs_def yield_entries_constructs)
  with Some v show ?thesis by simp
qed

lemma fetch_page_delivers:
  assumes d: "delivers yt (session_get ext n (page_request ext yt sess url body split ps c)) page"
    and c: "constructs rt page rs"
  shows "fetch_page ext yt ApiGetRequest sess url rt body split (AList.update ''pageToken'' c ps) n =
     (page_request ext yt sess url body split ps c, rs, Inr (dict_get page ''nextPageToken''))"
proof -
  let ?u = "build_url ext (base_url @ url) (AList.update ''pageToken'' c ps) True split"
  let ?rq = "page_request ext yt sess url body split ps c"
  let ?f = "session_get ext n ?rq"
  have rq: "get_request yt sess ?u body = ?rq"
    by (simp add: page_request_def)
  from d obtain rsp where r: "reply ?f = Inr rsp" and a: "arrives yt ?f rsp"
    and ct: "content_type rsp = ''application/json''" and jb: "json_body rsp = Inr (JObj page)"
    by (auto simp: delivers_def split: sum.splits)
  from a have chk: "check_request_return ext rsp = Inr rsp"
    by (simp add: arrives_def check_passes)
  from a have t: "\<not> session_timeout yt < elapsed ?f"
    by (simp add: arrives_def)
  have call: "call_method ApiGetRequest ext yt n sess ?u body = (?rq, elapsed ?f, Inr rsp)"
    by (simp add: call_method_def api_get_request_def Let_def rq r chk)
  from page_entries_constructs[OF c] obtain items entries where
    i: "py_get (JObj page) ''items'' (JArr []) = Inr items" and
    e: "py_iter items = Inr entries" and y: "yield_entries rt entries = (rs, None)"
    by blast
  have nx: "py_get (JObj page) ''nextPageToken'' JNull = Inr (dict_get page ''nextPageToken'')"
    by (simp add: dict_get_def)
  show ?thesis
    unfolding fetch_page_def call
    by (simp add: with_timeout_def t ct jb i e y nx del: py_get.simps)
qed

lemma fetch_page_timeout:
  assumes "session_timeout yt < elapsed (session_get ext n (page_request ext yt sess url body split ps c))"
  shows "fetch_page ext yt ApiGetRequest sess url rt body split (AList.update ''pageToken'' c ps) n =
     (page_request ext yt sess url body split ps c, [], Inl TimeoutError)"
  using assms
  by (simp add: fetch_page_def call_method_def api_get_request_def Let_def with_timeout_def
      page_request_def)

lemma fetch_page_raises:
  assumes "elapsed (session_get ext n (page_request ext yt sess url body split ps c)) \<le> session_timeout yt"
    and "reply (session_get ext n (page_request ext yt sess url body split ps c)) = Inr rsp"
    and "check_request_return ext rsp = Inl e"
  shows "fetch_page ext yt ApiGetRequest sess url rt body split (AList.update ''pageToken'' c ps) n =
     (page_request ext yt sess url body split ps c, [], Inl e)"
  using assms
  by (simp add: fetch_page_def call_method_def api_get_request_def Let_def with_timeout_def
      page_request_def)

lemma fetch_page_content_type:
  assumes "arrives yt (session_get ext n (page_request ext yt sess url body split ps c)) rsp"
    and "content_type rsp \<noteq> ''application/json''"
  shows "fetch_page ext yt ApiGetRequest sess url rt body split (AList.update ''pageToken'' c ps) n =
     (page_request ext yt sess url body split ps c, [],
      Inl (YouTubeAPIError (Some ''Unexpected response type'')))"
  using assms
  by (simp add: fetch_page_def call_method_def api_get_request_def Let_def with_timeout_def
      page_request_def arrives_def check_passes)

lemma cursors_Nil: "cursors c [] = [c]"
  by (simp add: cursors_def)

lemma cursors_Cons: "cursors c (p # ps) = c # cursors (dict_get p ''nextPageToken'') ps"
  by (simp add: cursors_def)

lemma cursors_not_Nil: "cursors c ps \<noteq> []"
  by (simp add: cursors_def)

lemma length_cursors: "length (cursors c ps) = Suc (length ps)"
  by (simp add: cursors_def)

lemma serves_Nil: "serves ext yt sess url body split ps n c []"
  by (simp add: serves_def)

lemma serves_Cons:
  "serves ext yt sess url body split ps n c (p # pages) \<longleftrightarrow>
     delivers yt (session_get ext n (page_request ext yt sess url body split ps c)) p \<and>
     serves ext yt sess url body split ps (Suc n) (dict_get p ''nextPageToken'') pages"
  unfolding serves_def cursors_Cons
  by (auto simp: less_Suc_eq_0_disj)

lemma prepend_Nil: "prepend [] [] r = r"
  by (simp add: prepend_def)

lemma emit_prepend: "emit rs rq (prepend rss rqs r) = prepend (rs @ rss) (rq # rqs) r"
  by (simp add: emit_def prepend_def)

lemma loop_pages:
  assumes "list_all2 (constructs rt) pages recs"
    and "serves ext yt sess url body split ps n c pages"
    and "\<forall>p\<in>set pages. dict_get p ''nextPageToken'' \<noteq> JNull"
    and "first \<or> c \<noteq> JNull"
  shows "generator_loop ext yt ApiGetRequest sess url rt body split (length pages + fuel) first c ps n =
     prepend (concat recs)
       (map (page_request ext yt sess url body split ps) (butlast (cursors c pages)))
       (generator_loop ext yt ApiGetRequest sess url rt body split fuel (first \<and> pages = [])
          (last (cursors c pages)) ps (n + length pages))"
  using assms
proof (induction pages recs arbitrary: n c first rule: list_all2_induct)
  case Nil
  then show ?case by (simp add: cursors_Nil prepend_Nil)
next
  case (Cons p pages rs recs)
  let ?c' = "dict_get p ''nextPageToken''"
  from Cons.prems have d: "delivers yt (session_get ext n (page_request ext yt sess url body split ps c)) p"
    and s: "serves ext yt sess url body split ps (Suc n) ?c' pages"
    by (simp_all add: serves_Cons)
  from Cons.prems have nn: "?c' \<noteq> JNull" and rest: "\<forall>p\<in>set pages. dict_get p ''nextPageToken'' \<noteq> JNull"
    by simp_all
  have step: "fetch_page ext yt ApiGetRequest sess url rt body split (AList.update ''pageToken'' c ps) n =
     (page_request ext yt sess url body split ps c, rs, Inr ?c')"
    by (rule fetch_page_delivers[OF d Cons.hyps(1)])
  have ih: "generator_loop ext yt ApiGetRequest sess url rt body split (length pages + fuel) False ?c' ps (Suc n) =
     prepend (concat recs)
       (map (page_request ext yt sess url body split ps) (butlast (cursors ?c' pages)))
       (generator_loop ext yt ApiGetRequest sess url rt body split fuel (False \<and> pages = [])
          (last (cursors ?c' pages)) ps (Suc n + length pages))"
    by (rule Cons.IH[OF s rest]) (simp add: nn)
  from Cons.prems(3) have enter: "first \<or> c \<noteq> JNull" .
  show ?case
    using enter
    by (simp add: step loop_forgets_page_token ih emit_prepend cursors_Cons cursors_not_Nil)
qed

section \<open>Facts about the loop\<close>

lemma loop_stops: "generator_loop ext yt m sess url rt body split fuel False JNull ps n =
   \<lparr>yielded = [], requests = [], ending = Stopped\<rparr>"
  by (cases fuel) simp_all

lemma loop_fails:
  assumes "fetch_page ext yt m sess url rt body split (AList.update ''pageToken'' c ps) n = (rq, rs, Inl e)"
    and "first \<or> c \<noteq> JNull"
  shows "generator_loop ext yt m sess url rt body split (Suc fuel) first c ps n =
     \<lparr>yielded = rs, requests = [rq], ending = Raised e\<rparr>"
  using assms by simp

lemma enters_after_pages:
  "\<forall>p\<in>set pages. dict_get p ''nextPageToken'' \<noteq> JNull \<Longrightarrow> first \<or> c \<noteq> JNull \<Longrightarrow>
   (first \<and> pages = []) \<or> last (cursors c pages) \<noteq> JNull"
  by (cases pages rule: rev_cases) (simp_all add: cursors_def)

lemma map_butlast_snoc:
  "xs \<noteq> [] \<Longrightarrow> map f (butlast xs) @ [f (last xs)] = map f xs"
  by (metis append_butlast_last_id list.simps(9) map_append list.simps(8))

text \<open>Pages, then a fetch that fails.\<close>

lemma loop_pages_then_fails:
  assumes recs: "list_all2 (constructs rt) pages recs"
    and srv: "serves ext yt sess url body split ps n c pages"
    and more: "\<forall>p\<in>set pages. dict_get p ''nextPageToken'' \<noteq> JNull"
    and enter: "first \<or> c \<noteq> JNull"
    and fails: "fetch_page ext yt ApiGetRequest sess url rt body split
        (AList.update ''pageToken'' (last (cursors c pages)) ps) (n + length pages) =
        (page_request ext yt sess url body split ps (last (cursors c pages)), [], Inl e)"
    and fuel: "length pages < fuel"
  shows "generator_loop ext yt ApiGetRequest sess url rt body split fuel first c ps n =
     \<lparr>yielded = concat recs,
      requests = map (page_request ext yt sess url body split ps) (cursors c pages),
      ending = Raised e\<rparr>"
proof -
  from fuel obtain k where k: "fuel = length pages + Suc k"
    by (metis less_imp_Suc_add add_Suc_right)
  have e2: "(first \<and> pages = []) \<or> last (cursors c pages) \<noteq> JNull"
    by (rule enters_after_pages[OF more enter])
  have tail: "generator_loop ext yt ApiGetRequest sess url rt body split (Suc k) (first \<and> pages = [])
      (last (cursors c pages)) ps (n + length pages) =
      \<lparr>yielded = [], requests = [page_request ext yt sess url body split ps (last (cursors c pages))],
       ending = Raised e\<rparr>"
    by (rule loop_fails[OF fails e2])
  show ?thesis
    unfolding k loop_pages[OF recs srv more enter] tail
    by (simp add: prepend_def map_butlast_snoc cursors_not_Nil)
qed

text \<open>Pages, the last of which carries no cursor.\<close>

lemma serves_snoc:
  "serves ext yt sess url body split ps n c (pages @ [p]) \<longleftrightarrow>
     serves ext yt sess url body split ps n c pages \<and>
     delivers yt (session_get ext (n + length pages)
        (page_request ext yt sess url body split ps (last (cursors c pages)))) p"
proof (induction pages arbitrary: n c)
  case Nil
  then show ?case by (simp add: serves_Cons serves_Nil cursors_Nil)
next
  case (Cons q pages)
  then show ?case by (simp add: serves_Cons cursors_Cons cursors_not_Nil)
qed

lemma loop_all_pages:
  assumes recs: "list_all2 (constructs rt) pages recs"
    and ne: "pages \<noteq> []"
    and srv: "serves ext yt sess url body split ps n c pages"
    and more: "\<forall>p\<in>set (butlast pages). dict_get p ''nextPageToken'' \<noteq> JNull"
    and fin: "dict_get (last pages) ''nextPageToken'' = JNull"
    and enter: "first \<or> c \<noteq> JNull"
    and fuel: "length pages \<le> fuel"
  shows "generator_loop ext yt ApiGetRequest sess url rt body split fuel first c ps n =
     \<lparr>yielded = concat recs,
      requests = map (page_request ext yt sess url body split ps) (butlast (cursors c pages)),
      ending = Stopped\<rparr>"
proof -
  from ne obtain front p where pages: "pages = front @ [p]"
    by (cases pages rule: rev_cases) auto
  from recs pages obtain rfront rs where r: "recs = rfront @ [rs]"
    and rf: "list_all2 (constructs rt) front rfront" and rl: "constructs rt p rs"
    by (auto simp: list_all2_append1 list_all2_Cons1)
  from srv pages have sf: "serves ext yt sess url body split ps n c front"
    and d: "delivers yt (session_get ext (n + length front)
        (page_request ext yt sess url body split ps (last (cursors c front)))) p"
    by (simp_all add: serves_snoc)
  from more pages have mf: "\<forall>p\<in>set front. dict_get p ''nextPageToken'' \<noteq> JNull"
    by simp
  from fin pages have fp: "dict_get p ''nextPageToken'' = JNull"
    by simp
  from fuel pages obtain k where k: "fuel = length front + Suc k"
    by (metis add_Suc_right le_Suc_ex length_append_singleton add.commute add_Suc)
  have e2: "(first \<and> front = []) \<or> last (cursors c front) \<noteq> JNull"
    by (rule enters_after_pages[OF mf enter])
  have step: "fetch_page ext yt ApiGetRequest sess url rt body split
      (AList.update ''pageToken'' (last (cursors c front)) ps) (n + length front) =
      (page_request ext yt sess url body split ps (last (cursors c front)), rs, Inr JNull)"
    using fetch_page_delivers[OF d rl] by (simp add: fp)
  have tail: "generator_loop ext yt ApiGetRequest sess url rt body split (Suc k) (first \<and> front = [])
      (last (cursors c front)) ps (n + length front) =
      \<lparr>yielded = rs, requests = [page_request ext yt sess url body split ps (last (cursors c front))],
       ending = Stopped\<rparr>"
    using e2 by (simp add: step loop_stops emit_def)
  have cs: "butlast (cursors c (front @ [p])) = cursors c front"
    by (simp add: cursors_def butlast_append)
  show ?thesis
    unfolding pages k r loop_pages[OF rf sf mf enter] tail cs
    by (simp add: prepend_def map_butlast_snoc cursors_not_Nil)
qed

section \<open>Facts about the generator\<close>

lemma ensure_session_keeps:
  "session_timeout (fst (snd (ensure_session yt ss))) = session_timeout yt"
  "user_auth_token (fst (snd (ensure_session yt ss))) = user_auth_token yt"
  by (simp_all add: ensure_session_def split: option.splits)

lemma page_request_session:
  "page_request ext (fst (snd (ensure_session yt ss))) sess url body split ps c =
   page_request ext yt sess url body split ps c"
  by (simp add: page_request_def get_request_def ensure_session_keeps)

lemma arrives_session:
  "arrives (fst (snd (ensure_session yt ss))) f rsp = arrives yt f rsp"
  by (simp add: arrives_def ensure_session_keeps)

lemma delivers_session:
  "delivers (fst (snd (ensure_session yt ss))) f page = delivers yt f page"
  by (cases "reply f") (simp_all add: delivers_def arrives_session)

lemma serves_session:
  "serves ext (fst (snd (ensure_session yt ss))) sess url body split ps n c pages =
   serves ext yt sess url body split ps n c pages"
  by (simp add: serves_def delivers_session page_request_session)

lemma build_generator_run:
  "snd (snd (build_generator ext yt ss req url ps rt body split fuel)) =
     (generator_loop ext (fst (snd (ensure_session yt ss))) ApiGetRequest (fst (ensure_session yt ss))
        url rt body split fuel True (dict_get ps ''nextPageToken'') ps 0)
     \<lparr>ending := catch_timeout
        (ending (generator_loop ext (fst (snd (ensure_session yt ss))) ApiGetRequest
           (fst (ensure_session yt ss)) url rt body split fuel True (dict_get ps ''nextPageToken'') ps 0))\<rparr>"
  by (simp add: build_generator_def Let_def lookup_method_get split: prod.splits)

lemma run_after_pages_fails:
  assumes recs: "list_all2 (constructs rt) pages recs"
    and srv: "serves ext yt (fst (ensure_session yt ss)) url body split ps 0 (dict_get ps ''nextPageToken'') pages"
    and more: "\<forall>p\<in>set pages. dict_get p ''nextPageToken'' \<noteq> JNull"
    and fails: "fetch_page ext (fst (snd (ensure_session yt ss))) ApiGetRequest (fst (ensure_session yt ss))
        url rt body split
        (AList.update ''pageToken'' (last (cursors (dict_get ps ''nextPageToken'') pages)) ps) (length pages) =
        (page_request ext yt (fst (ensure_session yt ss)) url body split ps
           (last (cursors (dict_get ps ''nextPageToken'') pages)), [], Inl e)"
    and fuel: "length pages < fuel"
  shows "snd (snd (build_generator ext yt ss req url ps rt body split fuel)) =
     \<lparr>yielded = concat recs,
      requests = map (page_request ext yt (fst (ensure_session yt ss)) url body split ps)
                   (cursors (dict_get ps ''nextPageToken'') pages),
      ending = catch_timeout (Raised e)\<rparr>"
proof -
  let ?yt = "fst (snd (ensure_session yt ss))"
  let ?sess = "fst (ensure_session yt ss)"
  let ?c = "dict_get ps ''nextPageToken''"
  have srv': "serves ext ?yt ?sess url body split ps 0 ?c pages"
    using srv by (simp add: serves_session)
  have fails': "fetch_page ext ?yt ApiGetRequest ?sess url rt body split
        (AList.update ''pageToken'' (last (cursors ?c pages)) ps) (0 + length pages) =
        (page_request ext ?yt ?sess url body split ps (last (cursors ?c pages)), [], Inl e)"
    using fails by (simp add: page_request_session)
  have run: "generator_loop ext ?yt ApiGetRequest ?sess url rt body split fuel True ?c ps 0 =
     \<lparr>yielded = concat recs,
      requests = map (page_request ext ?yt ?sess url body split ps) (cursors ?c pages),
      ending = Raised e\<rparr>"
    by (rule loop_pages_then_fails[OF recs srv' more _ fails' fuel]) simp
  show ?thesis
    unfolding build_generator_run run
    by (simp add: page_request_session)
qed

section \<open>Facts about the accessors and about closing\<close>

lemma fetch_page_request:
  "fst (fetch_page ext yt ApiGetRequest sess url rt body split ps n) =
     get_request yt sess (build_url ext (base_url @ url) ps True split) body"
  by (simp add: fetch_page_def call_method_def api_get_request_def Let_def
      split: sum.splits prod.splits option.splits)

lemma loop_first_request:
  "requests (generator_loop ext yt ApiGetRequest sess url rt body split (Suc fuel) True c ps n) \<noteq> [] \<and>
   hd (requests (generator_loop ext yt ApiGetRequest sess url rt body split (Suc fuel) True c ps n)) =
     get_request yt sess (build_url ext (base_url @ url) (AList.update ''pageToken'' c ps) True split) body"
  using fetch_page_request[of ext yt sess url rt body split "AList.update ''pageToken'' c ps" n]
  by (auto simp: emit_def split: prod.splits sum.splits)

lemma get_request_session:
  "get_request (fst (snd (ensure_session yt ss))) sess u body = get_request yt sess u body"
  by (simp add: get_request_def ensure_session_keeps)

lemma perform_external:
  "session yt = Some h \<Longrightarrow> \<not> close_session yt \<Longrightarrow>
   session (fst (perform a (yt, ss))) = Some h \<and> \<not> close_session (fst (perform a (yt, ss))) \<and>
   snd (perform a (yt, ss)) = ss"
  by (cases a)
    (auto simp: build_generator_def ensure_session_def set_user_authentication_def close_def Let_def
      split: prod.splits)

lemma perform_all_external:
  "session yt = Some h \<Longrightarrow> \<not> close_session yt \<Longrightarrow> snd (perform_all acts (yt, ss)) = ss"
proof (induction acts arbitrary: yt)
  case Nil
  then show ?case by (simp add: perform_all_def)
next
  case (Cons a acts)
  from perform_external[OF Cons.prems, of a ss]
  obtain yt' where p: "perform a (yt, ss) = (yt', ss)" and s: "session yt' = Some h"
    and c: "\<not> close_session yt'"
    by (cases "perform a (yt, ss)") auto
  from Cons.IH[OF s c] p show ?case
    by (simp add: perform_all_def)
qed

lemma build_generator_creates_session:
  "session yt = None \<Longrightarrow>
   fst (build_generator ext yt ss req url ps rt body split fuel) =
     yt\<lparr>session := Some (length ss), close_session := True\<rparr> \<and>
   fst (snd (build_generator ext yt ss req url ps rt body split fuel)) = ss @ [False]"
  by (simp add: build_generator_def ensure_session_def Let_def)

text \<open>The definitions that a concrete run unfolds.\<close>

lemmas sample_defs =
  sample_externals_def scripted_def answer_def sample_client_def YouTube_init_def
  sample_record_def page_one_def page_two_def sample_params_def resumed_params_def
  forbidden_body_def dict_get_def ensure_session_def

section \<open>The error classifier: status 400\<close>

text \<open>
  C2, as amended. For a response with status 400 whose body decodes to a JSON object,
  the classifier raises the API error whose message is \<^verbatim>\<open>Bad Request\<close> when the
  \<^verbatim>\<open>message\<close> field is absent or null, and \<^verbatim>\<open>Bad Request - \<close> followed by the
  field's value as a string when it is present: the body's message is appended to the
  generic text, it does not replace it.
\<close>

theorem bad_request_message:
  "status rsp = 400 \<Longrightarrow> json_body rsp = Inr (JObj kvs) \<Longrightarrow>
   check_request_return ext rsp =
     Inl (YouTubeAPIError (Some (case map_of kvs ''message'' of
            None \<Rightarrow> ''Bad Request''
          | Some m \<Rightarrow> if m = JNull then ''Bad Request'' else ''Bad Request - '' @ py_str ext m)))"
  by (simp add: check_request_return_def split: option.splits)

theorem bad_request_message_witness:
  "check_request_return (sample_externals [])
     \<lparr>status = 400, content_type = ''application/json'', json_body = Inr (JObj [])\<rparr>
   = Inl (YouTubeAPIError (Some ''Bad Request''))"
  using bad_request_message [of
      "\<lparr>status = 400, content_type = ''application/json'', json_body = Inr (JObj [])\<rparr>"
      "[]" "sample_externals []"]
  by simp

text \<open>
  The claim as stated fails: with the body \<^verbatim>\<open>{"message": "quota"}\<close> the message of the
  error is \<^verbatim>\<open>Bad Request - quota\<close>, not \<^verbatim>\<open>quota\<close>.
\<close>

theorem bad_request_message_counterexample:
  "check_request_return (sample_externals [])
     \<lparr>status = 400, content_type = ''application/json'',
      json_body = Inr (JObj [(''message'', JStr ''quota'')])\<rparr>
   = Inl (YouTubeAPIError (Some ''Bad Request - quota'')) \<and>
   check_request_return (sample_externals [])
     \<lparr>status = 400, content_type = ''application/json'',
      json_body = Inr (JObj [(''message'', JStr ''quota'')])\<rparr>
   \<noteq> Inl (YouTubeAPIError (Some ''quota''))"
  by (simp add: check_request_return_def)

section \<open>The request executor: the bearer header\<close>

text \<open>
  C8. Every request that the authenticated request executor sends carries exactly the
  header \<^verbatim>\<open>Authorization: Bearer <token>\<close> with the client's token at the time of the
  call. With a token \<open>t\<close> the value is \<^verbatim>\<open>Bearer t\<close>; with no token set the header is
  still attached, with the value \<^verbatim>\<open>Bearer None\<close>, and the request is sent all the same:
  what the executor returns or raises is what the network and the classifier make of it.
\<close>

theorem bearer_header_always_attached:
  "req_headers (fst (api_get_request ext yt n sess url data)) =
     [(''Authorization'', ''Bearer '' @ format_token (user_auth_token yt))] \<and>
   req_headers (fst (api_get_request ext (yt\<lparr>user_auth_token := Some t\<rparr>) n sess url data)) =
     [(''Authorization'', ''Bearer '' @ t)] \<and>
   req_headers (fst (api_get_request ext (yt\<lparr>user_auth_token := None\<rparr>) n sess url data)) =
     [(''Authorization'', ''Bearer None'')] \<and>
   req_url (fst (api_get_request ext yt n sess url data)) = url \<and>
   snd (snd (api_get_request ext (yt\<lparr>user_auth_token := None\<rparr>) n sess url data)) =
     (case reply (session_get ext n
                    \<lparr>req_session = sess, req_url = url,
                     req_headers = [(''Authorization'', ''Bearer None'')], req_json = data\<rparr>) of
        Inl e \<Rightarrow> Inl e
      | Inr rsp \<Rightarrow> check_request_return ext rsp)"
  by (simp add: api_get_request_def get_request_def Let_def)

section \<open>Credentials\<close>

text \<open>
  C6. Setting the credentials fails whenever the scope list is empty (with the
  \<^verbatim>\<open>ValueError\<close> of the refresh-token check when that check fails too, and with
  \<^verbatim>\<open>MissingScopeError\<close> otherwise), and fails with \<^verbatim>\<open>ValueError\<close> whenever
  auto-refresh is enabled and no refresh token is given. Whenever it fails, the client
  object is left exactly as it was: token, refresh token and scopes are unchanged.
\<close>

theorem set_user_authentication_validates:
  "(scopes = [] \<longrightarrow>
      fst (set_user_authentication yt token scopes refresh_token) =
        Some (if refresh_token = None \<and> auto_refresh_auth yt
              then ValueError ''refresh_token has to be provided when auto_refresh_auth is True''
              else MissingScopeError ''scope was not provided'')) \<and>
   (auto_refresh_auth yt \<and> refresh_token = None \<longrightarrow>
      fst (set_user_authentication yt token scopes refresh_token) =
        Some (ValueError ''refresh_token has to be provided when auto_refresh_auth is True'')) \<and>
   (fst (set_user_authentication yt token scopes refresh_token) \<noteq> None \<longrightarrow>
      snd (set_user_authentication yt token scopes refresh_token) = yt \<and>
      user_auth_token (snd (set_user_authentication yt token scopes refresh_token)) = user_auth_token yt \<and>
      user_auth_refresh_token (snd (set_user_authentication yt token scopes refresh_token)) =
        user_auth_refresh_token yt \<and>
      user_auth_scopes (snd (set_user_authentication yt token scopes refresh_token)) =
        user_auth_scopes yt)"
  by (simp add: set_user_authentication_def)

theorem set_user_authentication_validates_witness:
  "set_user_authentication (sample_client\<lparr>user_auth_token := Some ''old''\<rparr>) ''new'' [] (Some ''r'') =
     (Some (MissingScopeError ''scope was not provided''), sample_client\<lparr>user_auth_token := Some ''old''\<rparr>) \<and>
   set_user_authentication (sample_client\<lparr>auto_refresh_auth := True\<rparr>) ''new'' [()] None =
     (Some (ValueError ''refresh_token has to be provided when auto_refresh_auth is True''),
      sample_client\<lparr>auto_refresh_auth := True\<rparr>)"
  using set_user_authentication_validates
          [of "[]" "sample_client\<lparr>user_auth_token := Some ''old''\<rparr>" "''new''" "Some ''r''"]
        set_user_authentication_validates
          [of "[()]" "sample_client\<lparr>auto_refresh_auth := True\<rparr>" "''new''" None]
  by (simp add: prod_eq_iff sample_client_def YouTube_init_def)

text \<open>
  C10. When the scope list is not empty and a refresh token is given if auto-refresh is
  enabled, setting the credentials succeeds and the getter then returns the token that
  was set. A new client's getter returns \<^verbatim>\<open>None\<close>, and a failed attempt to set the
  credentials does not change what the getter returns.
\<close>

theorem set_get_round_trip:
  "(scopes \<noteq> [] \<and> (auto_refresh_auth (yt :: 's youtube) \<longrightarrow> refresh_token \<noteq> None) \<longrightarrow>
      fst (set_user_authentication yt token scopes refresh_token) = None \<and>
      get_user_auth_token (snd (set_user_authentication yt token scopes refresh_token)) = Some token) \<and>
   get_user_auth_token
     (YouTube_init app_id' app_secret' session' session_timeout' auto_refresh_auth' :: 's youtube) = None \<and>
   (fst (set_user_authentication yt token scopes refresh_token) \<noteq> None \<longrightarrow>
      get_user_auth_token (snd (set_user_authentication yt token scopes refresh_token)) =
        get_user_auth_token yt)"
  by (auto simp: set_user_authentication_def get_user_auth_token_def YouTube_init_def)

theorem set_get_round_trip_witness:
  "get_user_auth_token (snd (set_user_authentication sample_client ''tok'' [()] None)) = Some ''tok'' \<and>
   get_user_auth_token sample_client = None"
  using set_get_round_trip [of "[()]" sample_client None "''tok''" None None None None None]
  by (simp add: sample_client_def YouTube_init_def)

section \<open>The pagination engine: complete runs\<close>

text \<open>
  C1. Let the API serve \<open>N \<ge> 1\<close> pages in order, each in answer to the request that
  carries the cursor of the page before it (the first one in answer to the request for the
  cursor found in the parameter mapping, present or not), every page but the last with a
  \<^verbatim>\<open>nextPageToken\<close> and the last one without. Then the generator, consumed for at least
  \<open>N\<close> page fetches, stops by itself after yielding exactly the records of the pages'
  \<^verbatim>\<open>items\<close> lists, in page order and in-page order (a page without \<^verbatim>\<open>items\<close>
  contributes none), and it has sent exactly \<open>N\<close> requests, one for each cursor. With
  \<open>N = 1\<close> this is one request, whatever the parameter mapping held.
\<close>

theorem pagination_yields_all_pages:
  assumes "pages \<noteq> []"
    and "list_all2 (constructs return_type) pages recs"
    and "serves ext yt (fst (ensure_session yt ss)) url body_data split_lists url_params 0
           (dict_get url_params ''nextPageToken'') pages"
    and "\<forall>page\<in>set (butlast pages). dict_get page ''nextPageToken'' \<noteq> JNull"
    and "dict_get (last pages) ''nextPageToken'' = JNull"
    and "length pages \<le> fuel"
  shows "snd (snd (build_generator ext yt ss req url url_params return_type body_data split_lists fuel)) =
           \<lparr>yielded = concat recs,
            requests = map (page_request ext yt (fst (ensure_session yt ss)) url body_data split_lists url_params)
                         (butlast (cursors (dict_get url_params ''nextPageToken'') pages)),
            ending = Stopped\<rparr> \<and>
         length (requests (snd (snd
           (build_generator ext yt ss req url url_params return_type body_data split_lists fuel)))) =
           length pages"
proof -
  let ?yt = "fst (snd (ensure_session yt ss))"
  have srv: "serves ext ?yt (fst (ensure_session yt ss)) url body_data split_lists url_params 0
           (dict_get url_params ''nextPageToken'') pages"
    using assms(3) by (simp add: serves_session)
  have run: "generator_loop ext ?yt ApiGetRequest (fst (ensure_session yt ss)) url return_type body_data
       split_lists fuel True (dict_get url_params ''nextPageToken'') url_params 0 =
     \<lparr>yielded = concat recs,
      requests = map (page_request ext ?yt (fst (ensure_session yt ss)) url body_data split_lists url_params)
                   (butlast (cursors (dict_get url_params ''nextPageToken'') pages)),
      ending = Stopped\<rparr>"
    by (rule loop_all_pages[OF assms(2) assms(1) srv assms(4) assms(5) _ assms(6)]) simp
  show ?thesis
    unfolding build_generator_run run
    by (simp add: page_request_session length_cursors)
qed

section \<open>The pagination engine: runs that end with an error\<close>

text \<open>
  C3, as amended. Let a response with status 403 arrive within the timeout, with a body
  of the shape \<^verbatim>\<open>{"error": {"errors": [{"message": m}, ...]}}\<close>. The classifier
  raises \<^verbatim>\<open>ForbiddenError\<close> with the first entry's message \<open>m\<close>, and so does the
  generator. It yields no record from that response or after it: the sequence yields
  exactly the records of the pages delivered before the 403, which is no record at all
  when the 403 answers the first request.
\<close>

theorem forbidden_aborts_sequence:
  assumes "list_all2 (constructs return_type) pages recs"
    and "serves ext yt (fst (ensure_session yt ss)) url body_data split_lists url_params 0
           (dict_get url_params ''nextPageToken'') pages"
    and "\<forall>page\<in>set pages. dict_get page ''nextPageToken'' \<noteq> JNull"
    and "elapsed (session_get ext (length pages)
             (page_request ext yt (fst (ensure_session yt ss)) url body_data split_lists url_params
                (last (cursors (dict_get url_params ''nextPageToken'') pages)))) \<le> session_timeout yt"
    and "reply (session_get ext (length pages)
             (page_request ext yt (fst (ensure_session yt ss)) url body_data split_lists url_params
                (last (cursors (dict_get url_params ''nextPageToken'') pages)))) = Inr rsp"
    and "status rsp = 403"
    and "json_body rsp = Inr (JObj body)"
    and "map_of body ''error'' = Some (JObj err)"
    and "map_of err ''errors'' = Some (JArr (JObj entry # entries))"
    and "map_of entry ''message'' = Some m"
    and "length pages < fuel"
  shows "check_request_return ext rsp = Inl (ForbiddenError m) \<and>
         snd (snd (build_generator ext yt ss req url url_params return_type body_data split_lists fuel)) =
           \<lparr>yielded = concat recs,
            requests = map (page_request ext yt (fst (ensure_session yt ss)) url body_data split_lists url_params)
                         (cursors (dict_get url_params ''nextPageToken'') pages),
            ending = Raised (ForbiddenError m)\<rparr> \<and>
         (pages = [] \<longrightarrow>
            yielded (snd (snd
              (build_generator ext yt ss req url url_params return_type body_data split_lists fuel))) = [])"
proof -
  have chk: "check_request_return ext rsp = Inl (ForbiddenError m)"
    by (rule check_forbidden[OF assms(6) assms(7) assms(8) assms(9) assms(10)])
  have intime: "elapsed (session_get ext (length pages)
             (page_request ext (fst (snd (ensure_session yt ss))) (fst (ensure_session yt ss)) url body_data
                split_lists url_params (last (cursors (dict_get url_params ''nextPageToken'') pages))))
          \<le> session_timeout (fst (snd (ensure_session yt ss)))"
    using assms(4) by (simp add: page_request_session ensure_session_keeps)
  have rep: "reply (session_get ext (length pages)
             (page_request ext (fst (snd (ensure_session yt ss))) (fst (ensure_session yt ss)) url body_data
                split_lists url_params (last (cursors (dict_get url_params ''nextPageToken'') pages)))) = Inr rsp"
    using assms(5) by (simp add: page_request_session)
  have fails: "fetch_page ext (fst (snd (ensure_session yt ss))) ApiGetRequest (fst (ensure_session yt ss))
        url return_type body_data split_lists
        (AList.update ''pageToken'' (last (cursors (dict_get url_params ''nextPageToken'') pages)) url_params)
        (length pages) =
        (page_request ext yt (fst (ensure_session yt ss)) url body_data split_lists url_params
           (last (cursors (dict_get url_params ''nextPageToken'') pages)), [], Inl (ForbiddenError m))"
    using fetch_page_raises[OF intime rep chk] by (simp add: page_request_session)
  have run: "snd (snd (build_generator ext yt ss req url url_params return_type body_data split_lists fuel)) =
           \<lparr>yielded = concat recs,
            requests = map (page_request ext yt (fst (ensure_session yt ss)) url body_data split_lists url_params)
                         (cursors (dict_get url_params ''nextPageToken'') pages),
            ending = Raised (ForbiddenError m)\<rparr>"
    unfolding run_after_pages_fails[OF assms(1) assms(2) assms(3) fails assms(11)]
    by simp
  from assms(1) have "pages = [] \<Longrightarrow> concat recs = []"
    by auto
  with chk run show ?thesis by simp
qed

text \<open>
  C4. When a page fetch takes longer than the configured timeout (10 when the client
  is built without one), the generator raises the Backend error \<^verbatim>\<open>Timeout occurred\<close>.
  It has yielded exactly the records of the pages delivered before, and the request that
  timed out is the last one it sends: each cursor is requested once, with no retry.
\<close>

theorem timeout_aborts_sequence:
  assumes "list_all2 (constructs return_type) pages recs"
    and "serves ext yt (fst (ensure_session yt ss)) url body_data split_lists url_params 0
           (dict_get url_params ''nextPageToken'') pages"
    and "\<forall>page\<in>set pages. dict_get page ''nextPageToken'' \<noteq> JNull"
    and "session_timeout yt <
           elapsed (session_get ext (length pages)
             (page_request ext yt (fst (ensure_session yt ss)) url body_data split_lists url_params
                (last (cursors (dict_get url_params ''nextPageToken'') pages))))"
    and "length pages < fuel"
  shows "snd (snd (build_generator ext yt ss req url url_params return_type body_data split_lists fuel)) =
           \<lparr>yielded = concat recs,
            requests = map (page_request ext yt (fst (ensure_session yt ss)) url body_data split_lists url_params)
                         (cursors (dict_get url_params ''nextPageToken'') pages),
            ending = Raised (YouTubeBackendError ''Timeout occurred'')\<rparr> \<and>
         length (requests (snd (snd
           (build_generator ext yt ss req url url_params return_type body_data split_lists fuel)))) =
           Suc (length pages) \<and>
         session_timeout
           (YouTube_init app_id' app_secret' session' None auto_refresh_auth' :: 's youtube) = 10"
proof -
  have late: "session_timeout (fst (snd (ensure_session yt ss))) <
           elapsed (session_get ext (length pages)
             (page_request ext (fst (snd (ensure_session yt ss))) (fst (ensure_session yt ss)) url body_data
                split_lists url_params (last (cursors (dict_get url_params ''nextPageToken'') pages))))"
    using assms(4) by (simp add: page_request_session ensure_session_keeps)
  have fails: "fetch_page ext (fst (snd (ensure_session yt ss))) ApiGetRequest (fst (ensure_session yt ss))
        url return_type body_data split_lists
        (AList.update ''pageToken'' (last (cursors (dict_get url_params ''nextPageToken'') pages)) url_params)
        (length pages) =
        (page_request ext yt (fst (ensure_session yt ss)) url body_data split_lists url_params
           (last (cursors (dict_get url_params ''nextPageToken'') pages)), [], Inl TimeoutError)"
    using fetch_page_timeout[OF late] by (simp add: page_request_session)
  show ?thesis
    unfolding run_after_pages_fails[OF assms(1) assms(2) assms(3) fails assms(5)]
    by (simp add: length_cursors YouTube_init_def)
qed

text \<open>
  C5, as amended. When a response arrives within the timeout with a status that the
  classifier lets through (not 500 and not 4xx), and its declared content type is not
  \<^verbatim>\<open>application/json\<close>, the generator raises the API error
  \<^verbatim>\<open>Unexpected response type\<close>, whatever the body holds, after yielding exactly the
  records of the pages delivered before; no further request is sent.
\<close>

theorem wrong_content_type_aborts_sequence:
  assumes "list_all2 (constructs return_type) pages recs"
    and "serves ext yt (fst (ensure_session yt ss)) url body_data split_lists url_params 0
           (dict_get url_params ''nextPageToken'') pages"
    and "\<forall>page\<in>set pages. dict_get page ''nextPageToken'' \<noteq> JNull"
    and "arrives yt
           (session_get ext (length pages)
             (page_request ext yt (fst (ensure_session yt ss)) url body_data split_lists url_params
                (last (cursors (dict_get url_params ''nextPageToken'') pages))))
           rsp"
    and "content_type rsp \<noteq> ''application/json''"
    and "length pages < fuel"
  shows "snd (snd (build_generator ext yt ss req url url_params return_type body_data split_lists fuel)) =
           \<lparr>yielded = concat recs,
            requests = map (page_request ext yt (fst (ensure_session yt ss)) url body_data split_lists url_params)
                         (cursors (dict_get url_params ''nextPageToken'') pages),
            ending = Raised (YouTubeAPIError (Some ''Unexpected response type''))\<rparr>"
proof -
  have arr: "arrives (fst (snd (ensure_session yt ss)))
           (session_get ext (length pages)
             (page_request ext (fst (snd (ensure_session yt ss))) (fst (ensure_session yt ss)) url body_data
                split_lists url_params (last (cursors (dict_get url_params ''nextPageToken'') pages))))
           rsp"
    using assms(4) by (simp add: page_request_session arrives_session)
  have fails: "fetch_page ext (fst (snd (ensure_session yt ss))) ApiGetRequest (fst (ensure_session yt ss))
        url return_type body_data split_lists
        (AList.update ''pageToken'' (last (cursors (dict_get url_params ''nextPageToken'') pages)) url_params)
        (length pages) =
        (page_request ext yt (fst (ensure_session yt ss)) url body_data split_lists url_params
           (last (cursors (dict_get url_params ''nextPageToken'') pages)), [],
         Inl (YouTubeAPIError (Some ''Unexpected response type'')))"
    using fetch_page_content_type[OF arr assms(5)] by (simp add: page_request_session)
  show ?thesis
    unfolding run_after_pages_fails[OF assms(1) assms(2) assms(3) fails assms(6)]
    by simp
qed

section \<open>Resource accessors: empty id lists\<close>

text \<open>
  C9. \<^verbatim>\<open>get_videos\<close> with an empty list of ids raises \<^verbatim>\<open>ValueError\<close> before any
  request is sent and without touching the client or its session. \<^verbatim>\<open>get_channels\<close> with
  an empty list of ids has no such check: it goes on to the first request (observed before
  any fetch completes, the generator is pending in it, it has not raised), and that request
  is sent for the channels resource with the ids joined into the empty string.
\<close>

theorem empty_ids_checked_only_for_videos:
  "get_videos ext yt ss YouTubeVideo [] fuel =
     (yt, ss, \<lparr>yielded = [], requests = [],
               ending = Raised (ValueError ''at least one video id has to be set'')\<rparr>) \<and>
   ending (snd (snd (get_channels ext yt ss YouTubeChannel [] 0))) = Pending \<and>
   requests (snd (snd (get_channels ext yt ss YouTubeChannel [] (Suc fuel)))) \<noteq> [] \<and>
   hd (requests (snd (snd (get_channels ext yt ss YouTubeChannel [] (Suc fuel))))) =
     get_request yt (fst (ensure_session yt ss))
       (build_url ext (base_url @ ''channels'')
          [(''part'', JStr ''snippet,contentDetails,statistics''), (''id'', JStr ''''),
           (''pageToken'', JNull)]
          True False)
       None"
proof -
  have v: "get_videos ext yt ss YouTubeVideo [] fuel =
     (yt, ss, \<lparr>yielded = [], requests = [],
               ending = Raised (ValueError ''at least one video id has to be set'')\<rparr>)"
    by (simp add: get_videos_def)
  have p: "ending (snd (snd (get_channels ext yt ss YouTubeChannel [] 0))) = Pending"
    by (simp add: get_channels_def inner_get_channels_def build_generator_run)
  have r: "requests (snd (snd (get_channels ext yt ss YouTubeChannel [] (Suc fuel)))) \<noteq> [] \<and>
   hd (requests (snd (snd (get_channels ext yt ss YouTubeChannel [] (Suc fuel))))) =
     get_request yt (fst (ensure_session yt ss))
       (build_url ext (base_url @ ''channels'')
          [(''part'', JStr ''snippet,contentDetails,statistics''), (''id'', JStr ''''),
           (''pageToken'', JNull)]
          True False)
       None"
    using loop_first_request[of ext "fst (snd (ensure_session yt ss))" "fst (ensure_session yt ss)"
        "''channels''" YouTubeChannel None False fuel
        "dict_get [(''part'', JStr ''snippet,contentDetails,statistics''), (''id'', JStr '''')] ''nextPageToken''"
        "[(''part'', JStr ''snippet,contentDetails,statistics''), (''id'', JStr '''')]" 0]
    by (simp add: get_channels_def inner_get_channels_def build_generator_run get_request_session
        dict_get_def)
  from v p r show ?thesis by simp
qed

section \<open>Closing the session\<close>

text \<open>
  C7. Closing a client that has no session changes nothing, in particular right after
  construction without a session. When a session was supplied at construction, no
  program of generator runs, credential settings and closes changes the session store:
  the supplied session is never closed. A session that a generator run created for a
  client without one is in the store, open, and closing the client closes it. Closing a
  second time changes nothing more.
\<close>

theorem close_respects_ownership:
  "(session yt = None \<longrightarrow> close yt ss = ss) \<and>
   close (YouTube_init app_id' app_secret' None session_timeout' auto_refresh_auth' :: 's youtube) ss = ss \<and>
   snd (perform_all acts
          (YouTube_init app_id' app_secret' (Some h) session_timeout' auto_refresh_auth' :: 's youtube, ss)) = ss \<and>
   (session yt = None \<longrightarrow>
      session (fst (build_generator ext yt ss req url url_params return_type body_data split_lists fuel)) =
        Some (length ss) \<and>
      fst (snd (build_generator ext yt ss req url url_params return_type body_data split_lists fuel)) =
        ss @ [False] \<and>
      close (fst (build_generator ext yt ss req url url_params return_type body_data split_lists fuel))
        (fst (snd (build_generator ext yt ss req url url_params return_type body_data split_lists fuel))) =
        ss @ [True]) \<and>
   close yt (close yt ss) = close yt ss"
proof -
  have a: "session yt = None \<longrightarrow> close yt ss = ss"
    by (simp add: close_def)
  have a': "close (YouTube_init app_id' app_secret' None session_timeout' auto_refresh_auth' :: 's youtube) ss = ss"
    by (simp add: close_def YouTube_init_def)
  have b: "snd (perform_all acts
          (YouTube_init app_id' app_secret' (Some h) session_timeout' auto_refresh_auth' :: 's youtube, ss)) = ss"
    by (rule perform_all_external[where h = h]) (simp_all add: YouTube_init_def)
  have c: "session yt = None \<longrightarrow>
      session (fst (build_generator ext yt ss req url url_params return_type body_data split_lists fuel)) =
        Some (length ss) \<and>
      fst (snd (build_generator ext yt ss req url url_params return_type body_data split_lists fuel)) =
        ss @ [False] \<and>
      close (fst (build_generator ext yt ss req url url_params return_type body_data split_lists fuel))
        (fst (snd (build_generator ext yt ss req url url_params return_type body_data split_lists fuel))) =
        ss @ [True]"
    by (simp add: build_generator_creates_session close_def)
  have d: "close yt (close yt ss) = close yt ss"
    by (simp add: close_def split: option.splits)
  from a a' b c d show ?thesis by blast
qed

section \<open>Concrete runs\<close>

text \<open>
  Two pages, the first with the cursor \<^verbatim>\<open>t2\<close>: three records in order and two requests,
  for no cursor and for \<^verbatim>\<open>t2\<close>. One page requested with a cursor already in the
  parameters: one request.
\<close>

theorem pagination_yields_all_pages_witness:
  "snd (snd (build_generator
       (sample_externals [answer 1 200 ''application/json'' (JObj page_one),
                          answer 2 200 ''application/json'' (JObj page_two)])
       sample_client [] ''GET'' ''videos'' sample_params sample_record None False 2)) =
     \<lparr>yielded = [''a'', ''b'', ''c''],
      requests =
        [page_request (sample_externals [answer 1 200 ''application/json'' (JObj page_one),
                          answer 2 200 ''application/json'' (JObj page_two)])
           sample_client 0 ''videos'' None False sample_params JNull,
         page_request (sample_externals [answer 1 200 ''application/json'' (JObj page_one),
                          answer 2 200 ''application/json'' (JObj page_two)])
           sample_client 0 ''videos'' None False sample_params (JStr ''t2'')],
      ending = Stopped\<rparr> \<and>
   length (requests (snd (snd (build_generator
       (sample_externals [answer 1 200 ''application/json'' (JObj page_two)])
       sample_client [] ''GET'' ''videos'' resumed_params sample_record None False 1)))) = 1"
proof -
  let ?ext = "sample_externals [answer 1 200 ''application/json'' (JObj page_one),
                          answer 2 200 ''application/json'' (JObj page_two)]"
  let ?ext1 = "sample_externals [answer 1 200 ''application/json'' (JObj page_two)]"
  have r: "list_all2 (constructs sample_record) [page_one, page_two] [[''a'', ''b''], [''c'']]"
    by (simp add: constructs_def sample_defs)
  have s: "serves ?ext sample_client (fst (ensure_session sample_client [])) ''videos'' None False
       sample_params 0 (dict_get sample_params ''nextPageToken'') [page_one, page_two]"
    by (simp add: serves_Cons serves_Nil delivers_def arrives_def sample_defs)
  have m: "\<forall>page\<in>set (butlast [page_one, page_two]). dict_get page ''nextPageToken'' \<noteq> JNull"
    by (simp add: sample_defs)
  have f: "dict_get (last [page_one, page_two]) ''nextPageToken'' = JNull"
    by (simp add: sample_defs)
  have r1: "list_all2 (constructs sample_record) [page_two] [[''c'']]"
    by (simp add: constructs_def sample_defs)
  have s1: "serves ?ext1 sample_client (fst (ensure_session sample_client [])) ''videos'' None False
       resumed_params 0 (dict_get resumed_params ''nextPageToken'') [page_two]"
    by (simp add: serves_Cons serves_Nil delivers_def arrives_def sample_defs)
  have m1: "\<forall>page\<in>set (butlast [page_two]). dict_get page ''nextPageToken'' \<noteq> JNull"
    by simp
  have f1: "dict_get (last [page_two]) ''nextPageToken'' = JNull"
    by (simp add: sample_defs)
  from pagination_yields_all_pages [where req = "''GET''" and fuel = 2, OF _ r s m f]
       pagination_yields_all_pages [where req = "''GET''" and fuel = 1, OF _ r1 s1 m1 f1]
  show ?thesis
    by (simp add: cursors_def sample_defs)
qed

text \<open>
  A 403 as the first response: no record, one request, the server's message. A 403 as the
  second response: the two records of the first page, then the same error.
\<close>

theorem forbidden_aborts_sequence_witness:
  "snd (snd (build_generator
       (sample_externals [answer 1 403 ''application/json'' (JObj forbidden_body)])
       sample_client [] ''GET'' ''videos'' sample_params sample_record None False 1)) =
     \<lparr>yielded = [],
      requests = [page_request (sample_externals [answer 1 403 ''application/json'' (JObj forbidden_body)])
                    sample_client 0 ''videos'' None False sample_params JNull],
      ending = Raised (ForbiddenError (JStr ''insufficient permission''))\<rparr> \<and>
   yielded (snd (snd (build_generator
       (sample_externals [answer 1 200 ''application/json'' (JObj page_one),
                          answer 1 403 ''application/json'' (JObj forbidden_body)])
       sample_client [] ''GET'' ''videos'' sample_params sample_record None False 2))) = [''a'', ''b''] \<and>
   ending (snd (snd (build_generator
       (sample_externals [answer 1 200 ''application/json'' (JObj page_one),
                          answer 1 403 ''application/json'' (JObj forbidden_body)])
       sample_client [] ''GET'' ''videos'' sample_params sample_record None False 2))) =
     Raised (ForbiddenError (JStr ''insufficient permission''))"
  using forbidden_aborts_sequence
    [where pages = "[]" and recs = "[]" and return_type = sample_record
       and ext = "sample_externals [answer 1 403 ''application/json'' (JObj forbidden_body)]"
       and yt = sample_client and ss = "[]" and url = "''videos''" and body_data = None
       and split_lists = False and url_params = sample_params and fuel = 1 and req = "''GET''"
       and rsp = "\<lparr>status = 403, content_type = ''application/json'',
                    json_body = Inr (JObj forbidden_body)\<rparr>"
       and body = forbidden_body
       and err = "[(''errors'', JArr [JObj [(''message'', JStr ''insufficient permission'')]])]"
       and entry = "[(''message'', JStr ''insufficient permission'')]" and entries = "[]"
       and m = "JStr ''insufficient permission''"]
    forbidden_aborts_sequence
    [where pages = "[page_one]" and recs = "[[''a'', ''b'']]" and return_type = sample_record
       and ext = "sample_externals [answer 1 200 ''application/json'' (JObj page_one),
                          answer 1 403 ''application/json'' (JObj forbidden_body)]"
       and yt = sample_client and ss = "[]" and url = "''videos''" and body_data = None
       and split_lists = False and url_params = sample_params and fuel = 2 and req = "''GET''"
       and rsp = "\<lparr>status = 403, content_type = ''application/json'',
                    json_body = Inr (JObj forbidden_body)\<rparr>"
       and body = forbidden_body
       and err = "[(''errors'', JArr [JObj [(''message'', JStr ''insufficient permission'')]])]"
       and entry = "[(''message'', JStr ''insufficient permission'')]" and entries = "[]"
       and m = "JStr ''insufficient permission''"]
  by (simp add: sample_defs serves_Cons serves_Nil delivers_def arrives_def constructs_def cursors_def)

text \<open>
  The claim C3 as stated fails: the records are yielded page by page as they arrive, so
  when the 403 answers the request for the second page, the sequence has already yielded
  the records of the first page and does not yield zero records.
\<close>

theorem forbidden_aborts_sequence_counterexample:
  "yielded (snd (snd (build_generator
       (sample_externals [answer 1 200 ''application/json'' (JObj page_one),
                          answer 1 403 ''application/json'' (JObj forbidden_body)])
       sample_client [] ''GET'' ''videos'' sample_params sample_record None False 2))) = [''a'', ''b''] \<and>
   yielded (snd (snd (build_generator
       (sample_externals [answer 1 200 ''application/json'' (JObj page_one),
                          answer 1 403 ''application/json'' (JObj forbidden_body)])
       sample_client [] ''GET'' ''videos'' sample_params sample_record None False 2))) \<noteq> [] \<and>
   ending (snd (snd (build_generator
       (sample_externals [answer 1 200 ''application/json'' (JObj page_one),
                          answer 1 403 ''application/json'' (JObj forbidden_body)])
       sample_client [] ''GET'' ''videos'' sample_params sample_record None False 2))) =
     Raised (ForbiddenError (JStr ''insufficient permission''))"
  by (simp add: build_generator_run fetch_page_def call_method_def api_get_request_def Let_def
      with_timeout_def check_request_return_def forbidden_message_def emit_def
      eval_nat_numeral sample_defs)

text \<open>
  The second fetch takes 11 time units against the default timeout of 10: the records of
  the first page, then the Backend error, after two requests.
\<close>

theorem timeout_aborts_sequence_witness:
  "yielded (snd (snd (build_generator
       (sample_externals [answer 1 200 ''application/json'' (JObj page_one),
                          answer 11 200 ''application/json'' (JObj page_two)])
       sample_client [] ''GET'' ''videos'' sample_params sample_record None False 5))) = [''a'', ''b''] \<and>
   ending (snd (snd (build_generator
       (sample_externals [answer 1 200 ''application/json'' (JObj page_one),
                          answer 11 200 ''application/json'' (JObj page_two)])
       sample_client [] ''GET'' ''videos'' sample_params sample_record None False 5))) =
     Raised (YouTubeBackendError ''Timeout occurred'') \<and>
   length (requests (snd (snd (build_generator
       (sample_externals [answer 1 200 ''application/json'' (JObj page_one),
                          answer 11 200 ''application/json'' (JObj page_two)])
       sample_client [] ''GET'' ''videos'' sample_params sample_record None False 5)))) = 2"
  using timeout_aborts_sequence
    [where pages = "[page_one]" and recs = "[[''a'', ''b'']]" and return_type = sample_record
       and ext = "sample_externals [answer 1 200 ''application/json'' (JObj page_one),
                          answer 11 200 ''application/json'' (JObj page_two)]"
       and yt = sample_client and ss = "[]" and url = "''videos''" and body_data = None
       and split_lists = False and url_params = sample_params and fuel = 5 and req = "''GET''"
       and app_id' = None and app_secret' = None and session' = None and auto_refresh_auth' = None]
  by (simp add: sample_defs serves_Cons serves_Nil delivers_def arrives_def constructs_def cursors_def)

text \<open>The second response declares \<^verbatim>\<open>text/html\<close> although its body decodes.\<close>

theorem wrong_content_type_aborts_sequence_witness:
  "yielded (snd (snd (build_generator
       (sample_externals [answer 1 200 ''application/json'' (JObj page_one),
                          answer 1 200 ''text/html'' (JObj page_two)])
       sample_client [] ''GET'' ''videos'' sample_params sample_record None False 5))) = [''a'', ''b''] \<and>
   ending (snd (snd (build_generator
       (sample_externals [answer 1 200 ''application/json'' (JObj page_one),
                          answer 1 200 ''text/html'' (JObj page_two)])
       sample_client [] ''GET'' ''videos'' sample_params sample_record None False 5))) =
     Raised (YouTubeAPIError (Some ''Unexpected response type''))"
  using wrong_content_type_aborts_sequence
    [where pages = "[page_one]" and recs = "[[''a'', ''b'']]" and return_type = sample_record
       and ext = "sample_externals [answer 1 200 ''application/json'' (JObj page_one),
                          answer 1 200 ''text/html'' (JObj page_two)]"
       and yt = sample_client and ss = "[]" and url = "''videos''" and body_data = None
       and split_lists = False and url_params = sample_params and fuel = 5 and req = "''GET''"
       and rsp = "\<lparr>status = 200, content_type = ''text/html'', json_body = Inr (JObj page_two)\<rparr>"]
  by (simp add: sample_defs serves_Cons serves_Nil delivers_def arrives_def constructs_def cursors_def)

text \<open>
  The claim C5 as stated fails: a response with status 500 and content type
  \<^verbatim>\<open>text/html\<close> is classified by its status first, and the generator raises the Backend
  error \<^verbatim>\<open>Internal Server Error\<close>, not the API error for the content type.
\<close>

theorem wrong_content_type_counterexample:
  "ending (snd (snd (build_generator
       (sample_externals [answer 1 500 ''text/html'' (JObj page_two)])
       sample_client [] ''GET'' ''videos'' sample_params sample_record None False 1))) =
     Raised (YouTubeBackendError ''Internal Server Error'') \<and>
   ending (snd (snd (build_generator
       (sample_externals [answer 1 500 ''text/html'' (JObj page_two)])
       sample_client [] ''GET'' ''videos'' sample_params sample_record None False 1))) \<noteq>
     Raised (YouTubeAPIError (Some ''Unexpected response type''))"
  by (simp add: build_generator_run fetch_page_def call_method_def api_get_request_def Let_def
      with_timeout_def check_request_return_def sample_defs)

text \<open>
  A client without a session, a client built on the supplied session 0, and a client
  whose generator created its session.
\<close>

theorem close_respects_ownership_witness:
  "close (sample_client :: unit youtube) [False] = [False] \<and>
   snd (perform_all
          [Close, Generate (sample_externals []) ''GET'' ''videos'' sample_params sample_record None False 1,
           Close]
          (YouTube_init None None (Some 0) None None :: unit youtube, [False])) = [False] \<and>
   close (fst (build_generator (sample_externals []) sample_client [] ''GET'' ''videos'' sample_params
                 sample_record None False 1))
     (fst (snd (build_generator (sample_externals []) sample_client [] ''GET'' ''videos'' sample_params
                 sample_record None False 1))) = [True] \<and>
   close (sample_client\<lparr>session := Some 0, close_session := True\<rparr>)
     (close (sample_client\<lparr>session := Some 0, close_session := True\<rparr>) [False]) = [True]"
proof -
  have n: "session (sample_client :: unit youtube) = None"
    by (simp add: sample_client_def YouTube_init_def)
  have a: "close (sample_client :: unit youtube) [False] = [False]"
    by (rule close_respects_ownership [THEN conjunct1, THEN mp, OF n])
  have b: "snd (perform_all
          [Close, Generate (sample_externals []) ''GET'' ''videos'' sample_params sample_record None False 1,
           Close]
          (YouTube_init None None (Some 0) None None :: unit youtube, [False])) = [False]"
    by (rule close_respects_ownership [THEN conjunct2, THEN conjunct2, THEN conjunct1])
  have c: "close (fst (build_generator (sample_externals []) sample_client [] ''GET'' ''videos'' sample_params
                 sample_record None False 1))
     (fst (snd (build_generator (sample_externals []) sample_client [] ''GET'' ''videos'' sample_params
                 sample_record None False 1))) = [] @ [True]"
    by (rule close_respects_ownership [THEN conjunct2, THEN conjunct2, THEN conjunct2, THEN conjunct1,
          THEN mp, THEN conjunct2, THEN conjunct2, OF n])
  have d: "close (sample_client\<lparr>session := Some 0, close_session := True\<rparr>)
     (close (sample_client\<lparr>session := Some 0, close_session := True\<rparr>) [False]) =
     close (sample_client\<lparr>session := Some 0, close_session := True\<rparr> :: unit youtube) [False]"
    by (rule close_respects_ownership [THEN conjunct2, THEN conjunct2, THEN conjunct2, THEN conjunct2])
  from a b c d show ?thesis
    by (simp add: close_def)
qed

end
